theory Spec2Isabelle
  imports Complex_Main
begin

section \<open>Values, requests and responses\<close>

text \<open>
  JSON values as Python sees them after parsing: \<open>JNull\<close> is \<open>None\<close>, an object is a
  dict given by its items (keys distinct, so \<open>map_of\<close> is the dict lookup). A finite
  float is the rational it denotes; only its comparison with zero is ever used.
\<close>

datatype json =
    JNull
  | JBool bool
  | JInt int
  | JFloat rat
  | JStr string
  | JArr "json list"
  | JObj "(string \<times> json) list"

text \<open>Python truthiness, as \<open>not new_status\<close> and \<open>not token\<close> use it.\<close>

fun truthy :: "json \<Rightarrow> bool" where
  "truthy JNull = False"
| "truthy (JBool b) = b"
| "truthy (JInt i) = (i \<noteq> 0)"
| "truthy (JFloat q) = (q \<noteq> 0)"
| "truthy (JStr s) = (s \<noteq> [])"
| "truthy (JArr xs) = (xs \<noteq> [])"
| "truthy (JObj kvs) = (kvs \<noteq> [])"

text \<open>The exceptions that the modelled code can raise or let through.\<close>

datatype exn =
    IndexError
  | KeyError string
  | AttributeError
  | HTTPException nat
  | Psycopg2Error string
  | OtherException string

fun str_exn :: "exn \<Rightarrow> string" where
  "str_exn IndexError = ''list index out of range''"
| "str_exn (KeyError k) = k"
| "str_exn AttributeError = ''object has no attribute''"
| "str_exn (HTTPException c) = ''http error''"
| "str_exn (Psycopg2Error m) = m"
| "str_exn (OtherException m) = m"

text \<open>
  The request: its headers in arrival order (\<open>headers[k]\<close> reads the first value), the
  outcome of \<open>request.get_json()\<close> (the framework raises on an unparsable body), and the
  two attributes the authentication decorator attaches (\<open>None\<close> while unset).
\<close>

record request =
  headers :: "(string \<times> string) list"
  get_json :: "exn + json"
  user_id :: "json option"
  user_role :: "json option"

text \<open>What a view returns: \<open>jsonify(body), status_code\<close>.\<close>

record response =
  status_code :: nat
  body :: "(string \<times> json) list"

section \<open>String helpers of the Python runtime\<close>

text \<open>\<open>s.split(c)\<close> with an explicit separator: every occurrence cuts, empty parts are kept.\<close>

fun str_split :: "char \<Rightarrow> string \<Rightarrow> string list" where
  "str_split c [] = [[]]"
| "str_split c (x # xs) =
     (if x = c then [] # str_split c xs
      else (case str_split c xs of
              [] \<Rightarrow> [[x]]
            | p # ps \<Rightarrow> (x # p) # ps))"

text \<open>\<open>sep.join(xs)\<close>.\<close>

fun str_join :: "string \<Rightarrow> string list \<Rightarrow> string" where
  "str_join sep [] = []"
| "str_join sep [x] = x"
| "str_join sep (x # y # ys) = x @ sep @ str_join sep (y # ys)"

text \<open>\<open>str(n)\<close> for an integer, as an f-string renders it.\<close>

fun str_nat :: "nat \<Rightarrow> string" where
  "str_nat n =
     (if n < 10 then [''0123456789'' ! n]
      else str_nat (n div 10) @ [''0123456789'' ! (n mod 10)])"

declare str_nat.simps [simp del]

definition str_int :: "int \<Rightarrow> string" where
  "str_int i = (if i < 0 then CHR ''-'' # str_nat (nat (- i)) else str_nat (nat i))"

section \<open>Storage\<close>

text \<open>
  A row of the \<open>tables\<close> table, in the column order of its \<open>CREATE TABLE\<close>:
  \<open>(table_number, status)\<close>.
\<close>

type_synonym row = "int \<times> string"

text \<open>
  The driver calls the handler makes. The world keeps the committed rows, the trace of
  driver calls made so far and the lines printed to the operational log.
\<close>

datatype db_call =
  Connect | Cursor | Execute | Fetchone | Commit | Rollback | CloseCursor | CloseConn

record world =
  tables :: "row list"
  calls :: "db_call list"
  log :: "string list"

text \<open>
  The environment decides which driver call raises, and what. \<open>rollback\<close> and
  \<open>close\<close> are taken not to raise.
\<close>

type_synonym faults = "db_call \<Rightarrow> exn option"

definition no_faults :: faults where
  "no_faults c = None"

definition called :: "db_call \<Rightarrow> world \<Rightarrow> world" where
  "called c w = w\<lparr>calls := calls w @ [c]\<rparr>"

definition printed :: "string \<Rightarrow> world \<Rightarrow> world" where
  "printed l w = w\<lparr>log := log w @ [l]\<rparr>"

text \<open>
  \<open>UPDATE tables SET status = %s WHERE table_number = %s RETURNING *\<close> on the rows the
  transaction sees: the rows after the statement, and the rows it returns.
\<close>

definition set_status :: "string \<Rightarrow> int \<Rightarrow> row \<Rightarrow> row" where
  "set_status new_status table_number r =
     (if fst r = table_number then (fst r, new_status) else r)"

definition sql_update :: "string \<Rightarrow> int \<Rightarrow> row list \<Rightarrow> row list \<times> row list" where
  "sql_update new_status table_number rs =
     (map (set_status new_status table_number) rs,
      map (set_status new_status table_number) (filter (\<lambda>r. fst r = table_number) rs))"

text \<open>\<open>cur.fetchone()\<close>: the next row of the result, or \<open>None\<close>.\<close>

definition fetchone :: "row list \<Rightarrow> row option" where
  "fetchone res = (case res of [] \<Rightarrow> None | r # _ \<Rightarrow> Some r)"

section \<open>The authentication decorator\<close>

text \<open>
  \<open>jwt.decode(token, SECRET_KEY, algorithms=["HS256"])\<close> belongs to a library outside
  the repository and depends on the secret and the clock; it is a parameter. It returns
  the payload dict, or raises \<open>ExpiredSignatureError\<close>, or raises another
  \<open>InvalidTokenError\<close>.
\<close>

datatype decode_result =
    Payload "(string \<times> json) list"
  | ExpiredSignatureError
  | InvalidTokenError

type_synonym 'w view = "request \<Rightarrow> 'w \<Rightarrow> (exn + response) \<times> 'w"

text \<open>\<open>request.headers['Authorization'].split(" ")[1]\<close>, behind the membership test.\<close>

definition read_token :: "request \<Rightarrow> exn + string option" where
  "read_token req =
     (case map_of (headers req) ''Authorization'' of
        None \<Rightarrow> Inr None
      | Some h \<Rightarrow>
          (case str_split CHR '' '' h of
             _ # t # _ \<Rightarrow> Inr (Some t)
           | _ \<Rightarrow> Inl IndexError))"

definition token_required :: "(string \<Rightarrow> decode_result) \<Rightarrow> 'w view \<Rightarrow> 'w view" where
  "token_required jwt_decode f req w =
     (case read_token req of
        Inl e \<Rightarrow> (Inl e, w)
      | Inr None \<Rightarrow>
          (Inr \<lparr>status_code = 401, body = [(''message'', JStr ''Token is missing!'')]\<rparr>, w)
      | Inr (Some token) \<Rightarrow>
          if token = [] then
            (Inr \<lparr>status_code = 401, body = [(''message'', JStr ''Token is missing!'')]\<rparr>, w)
          else
            (case jwt_decode token of
               ExpiredSignatureError \<Rightarrow>
                 (Inr \<lparr>status_code = 401, body = [(''message'', JStr ''Token has expired!'')]\<rparr>, w)
             | InvalidTokenError \<Rightarrow>
                 (Inr \<lparr>status_code = 401, body = [(''message'', JStr ''Invalid Token!'')]\<rparr>, w)
             | Payload data \<Rightarrow>
                 (case map_of data ''user_id'' of
                    None \<Rightarrow> (Inl (KeyError ''user_id''), w)
                  | Some uid \<Rightarrow>
                      (case map_of data ''role'' of
                         None \<Rightarrow> (Inl (KeyError ''role''), w)
                       | Some role \<Rightarrow>
                           f (req\<lparr>user_id := Some uid, user_role := Some role\<rparr>) w))))"

section \<open>The table status handler\<close>

definition allowed_statuses :: "string list" where
  "allowed_statuses = [''available'', ''occupied'', ''cleaning'', ''reserved'']"

text \<open>
  The body of the \<open>try\<close>: the outcome, the locals \<open>conn\<close> and \<open>cur\<close> as they stand when
  the block is left (\<open>None\<close>, or the rows the transaction sees and the rows still to
  fetch), and the world.
\<close>

definition try_block ::
  "faults \<Rightarrow> string \<Rightarrow> int \<Rightarrow> world \<Rightarrow>
   (exn + response) \<times> row list option \<times> row list option \<times> world" where
  "try_block flt new_status table_number w0 =
     (let w1 = called Connect w0 in
      case flt Connect of
        Some e \<Rightarrow> (Inl e, None, None, w1)
      | None \<Rightarrow>
     (let conn = tables w1; w2 = called Cursor w1 in
      case flt Cursor of
        Some e \<Rightarrow> (Inl e, Some conn, None, w2)
      | None \<Rightarrow>
     (let w3 = called Execute w2 in
      case flt Execute of
        Some e \<Rightarrow> (Inl e, Some conn, Some [], w3)
      | None \<Rightarrow>
     (let conn' = fst (sql_update new_status table_number conn);
          res = snd (sql_update new_status table_number conn);
          w4 = called Fetchone w3 in
      case flt Fetchone of
        Some e \<Rightarrow> (Inl e, Some conn', Some res, w4)
      | None \<Rightarrow>
     (let updated_table = fetchone res;
          w5 = called Commit w4 in
      case flt Commit of
        Some e \<Rightarrow> (Inl e, Some conn', Some (tl res), w5)
      | None \<Rightarrow>
     (let w6 = w5\<lparr>tables := conn'\<rparr> in
      case updated_table of
        Some r \<Rightarrow>
          (Inr \<lparr>status_code = 200,
                body = [(''message'', JStr (''Table '' @ str_int table_number @
                                            '' status updated to '' @ new_status)),
                        (''table_number'', JInt (fst r)),
                        (''status'', JStr (snd r))]\<rparr>,
           Some conn', Some (tl res), w6)
      | None \<Rightarrow>
          (Inr \<lparr>status_code = 404,
                body = [(''error'', JStr (''Table '' @ str_int table_number @ '' not found''))]\<rparr>,
           Some conn', Some (tl res), w6)))))))"

text \<open>The \<open>finally\<close> clause: close what was opened.\<close>

definition finally_block :: "row list option \<Rightarrow> row list option \<Rightarrow> world \<Rightarrow> world" where
  "finally_block conn cur w =
     (let w' = (if cur = None then w else called CloseCursor w)
      in if conn = None then w' else called CloseConn w')"

text \<open>
  The two \<open>except\<close> clauses. \<open>conn.rollback()\<close> on \<open>conn = None\<close> raises
  \<open>AttributeError\<close> inside the clause, which leaves the handler after \<open>finally\<close>.
\<close>

definition guarded_update :: "faults \<Rightarrow> string \<Rightarrow> int \<Rightarrow> world \<Rightarrow> (exn + response) \<times> world" where
  "guarded_update flt new_status table_number w0 =
     (case try_block flt new_status table_number w0 of
        (Inr resp, conn, cur, w) \<Rightarrow> (Inr resp, finally_block conn cur w)
      | (Inl (Psycopg2Error m), conn, cur, w) \<Rightarrow>
          (case conn of
             None \<Rightarrow> (Inl AttributeError, finally_block conn cur w)
           | Some c \<Rightarrow>
               (Inr \<lparr>status_code = 500,
                     body = [(''error'',
                       JStr ''Failed to update table status due to a database error.'')]\<rparr>,
                finally_block conn cur (printed (''Database error: '' @ m) (called Rollback w))))
      | (Inl e, conn, cur, w) \<Rightarrow>
          (Inr \<lparr>status_code = 500,
                body = [(''error'', JStr ''An unexpected error occurred.'')]\<rparr>,
           finally_block conn cur (printed (''An unexpected error occurred: '' @ str_exn e) w)))"

text \<open>\<open>data.get('status')\<close>: only a dict has \<open>get\<close>; a missing key gives \<open>None\<close>.\<close>

definition get_status :: "json \<Rightarrow> exn + json" where
  "get_status data =
     (case data of
        JObj kvs \<Rightarrow> (case map_of kvs ''status'' of None \<Rightarrow> Inr JNull | Some v \<Rightarrow> Inr v)
      | _ \<Rightarrow> Inl AttributeError)"

definition update_table_status :: "faults \<Rightarrow> int \<Rightarrow> world view" where
  "update_table_status flt table_number req w =
     (case user_role req of
        None \<Rightarrow> (Inl AttributeError, w)
      | Some role \<Rightarrow>
     if role \<notin> set [JStr ''waiter'', JStr ''admin''] then
       (Inr \<lparr>status_code = 403,
             body = [(''error'',
               JStr ''Unauthorized: Only waiters or admins can update table status'')]\<rparr>, w)
     else
     (case get_json req of
        Inl e \<Rightarrow> (Inl e, w)
      | Inr data \<Rightarrow>
     (case get_status data of
        Inl e \<Rightarrow> (Inl e, w)
      | Inr new_status \<Rightarrow>
     if \<not> truthy new_status then
       (Inr \<lparr>status_code = 400, body = [(''error'', JStr ''Status is required'')]\<rparr>, w)
     else
     (let invalid = \<lparr>status_code = 400,
                     body = [(''error'', JStr (''Invalid status. Allowed statuses are: '' @
                                               str_join '', '' allowed_statuses))]\<rparr>
      in case new_status of
           JStr s \<Rightarrow>
             if s \<notin> set allowed_statuses then (Inr invalid, w)
             else guarded_update flt s table_number w
         | _ \<Rightarrow> (Inr invalid, w)))))"

text \<open>The route: the handler behind the decorator.\<close>

definition api_table_status ::
  "(string \<Rightarrow> decode_result) \<Rightarrow> faults \<Rightarrow> int \<Rightarrow> world view" where
  "api_table_status jwt_decode flt table_number =
     token_required jwt_decode (update_table_status flt table_number)"

section \<open>Sample inputs\<close>

text \<open>
  A decoder that knows four tokens, the five rows the bootstrap seeds, a request with one
  Authorization header and a JSON body, and an environment where the connection is refused.
\<close>

definition sample_decode :: "string \<Rightarrow> decode_result" where
  "sample_decode t =
     (if t = ''waiter.tok'' then
        Payload [(''user_id'', JInt 7), (''role'', JStr ''waiter''), (''exp'', JInt 2000000000)]
      else if t = ''customer.tok'' then
        Payload [(''user_id'', JInt 8), (''role'', JStr ''customer''), (''exp'', JInt 2000000000)]
      else if t = ''norole.tok'' then
        Payload [(''user_id'', JInt 9), (''exp'', JInt 2000000000)]
      else if t = ''old.tok'' then ExpiredSignatureError
      else InvalidTokenError)"

definition sample_world :: world where
  "sample_world =
     \<lparr>tables = [(1, ''available''), (2, ''available''), (3, ''available''),
                (4, ''available''), (5, ''available'')],
      calls = [], log = []\<rparr>"

definition sample_request :: "string \<Rightarrow> json \<Rightarrow> request" where
  "sample_request auth data =
     \<lparr>headers = [(''Authorization'', auth)], get_json = Inr data,
      user_id = None, user_role = None\<rparr>"

definition authorised_request :: "string \<Rightarrow> json \<Rightarrow> request" where
  "authorised_request role data =
     \<lparr>headers = [], get_json = Inr data,
      user_id = Some (JInt 7), user_role = Some (JStr role)\<rparr>"

definition connect_refused :: faults where
  "connect_refused c =
     (if c = Connect then Some (Psycopg2Error ''connection refused'') else None)"

definition execute_fails :: faults where
  "execute_fails c =
     (if c = Execute then Some (Psycopg2Error ''relation does not exist'') else None)"

section \<open>Facts about the storage model and the decorator\<close>

lemma set_status_other: "fst r \<noteq> n \<Longrightarrow> set_status s n r = r"
  by (simp add: set_status_def)

lemma set_status_fst: "fst (set_status s n r) = fst r"
  by (simp add: set_status_def)

lemma set_status_hit: "fst r = n \<Longrightarrow> set_status s n r = (n, s)"
  by (simp add: set_status_def)

lemma update_no_match:
  "n \<notin> fst ` set rs \<Longrightarrow> sql_update s n rs = (rs, [])"
proof -
  assume a: "n \<notin> fst ` set rs"
  then have "\<forall>r \<in> set rs. fst r \<noteq> n" by auto
  then have "map (set_status s n) rs = rs" "filter (\<lambda>r. fst r = n) rs = []"
    by (simp_all add: map_idI set_status_other filter_empty_conv)
  then show ?thesis by (simp add: sql_update_def)
qed

lemma update_match_fetch:
  "n \<in> fst ` set rs \<Longrightarrow> fetchone (snd (sql_update s n rs)) = Some (n, s)"
proof -
  assume "n \<in> fst ` set rs"
  then have "filter (\<lambda>r. fst r = n) rs \<noteq> []"
    by (auto simp: filter_empty_conv)
  then obtain r rest where f: "filter (\<lambda>r. fst r = n) rs = r # rest"
    by (cases "filter (\<lambda>r. fst r = n) rs") auto
  then have "r \<in> set (filter (\<lambda>r. fst r = n) rs)" by simp
  then have "fst r = n" by simp
  with f show ?thesis
    by (simp add: sql_update_def fetchone_def set_status_hit)
qed

lemma read_token_parts:
  "map_of (headers req) ''Authorization'' = Some h \<Longrightarrow>
   str_split CHR '' '' h = scheme # token # rest \<Longrightarrow> read_token req = Inr (Some token)"
  by (simp add: read_token_def)

lemma gate_passes:
  assumes "map_of (headers req) ''Authorization'' = Some h"
    and "str_split CHR '' '' h = scheme # token # rest"
    and "token \<noteq> []"
    and "jwt_decode token = Payload data"
    and "map_of data ''user_id'' = Some uid"
    and "map_of data ''role'' = Some role"
  shows "token_required jwt_decode f req w = f (req\<lparr>user_id := Some uid, user_role := Some role\<rparr>) w"
  using assms by (simp add: token_required_def read_token_parts)

lemma try_block_ok:
  "try_block no_faults s n w =
     (case fetchone (snd (sql_update s n (tables w))) of
        Some r \<Rightarrow>
          (Inr \<lparr>status_code = 200,
                body = [(''message'', JStr (''Table '' @ str_int n @ '' status updated to '' @ s)),
                        (''table_number'', JInt (fst r)),
                        (''status'', JStr (snd r))]\<rparr>,
           Some (fst (sql_update s n (tables w))), Some (tl (snd (sql_update s n (tables w)))),
           w\<lparr>tables := fst (sql_update s n (tables w)),
             calls := calls w @ [Connect, Cursor, Execute, Fetchone, Commit]\<rparr>)
      | None \<Rightarrow>
          (Inr \<lparr>status_code = 404,
                body = [(''error'', JStr (''Table '' @ str_int n @ '' not found''))]\<rparr>,
           Some (fst (sql_update s n (tables w))), Some (tl (snd (sql_update s n (tables w)))),
           w\<lparr>tables := fst (sql_update s n (tables w)),
             calls := calls w @ [Connect, Cursor, Execute, Fetchone, Commit]\<rparr>))"
  by (simp add: try_block_def no_faults_def called_def Let_def split: option.splits)

lemma guarded_update_ok:
  "guarded_update no_faults s n w =
     (case fetchone (snd (sql_update s n (tables w))) of
        Some r \<Rightarrow>
          (Inr \<lparr>status_code = 200,
                body = [(''message'', JStr (''Table '' @ str_int n @ '' status updated to '' @ s)),
                        (''table_number'', JInt (fst r)),
                        (''status'', JStr (snd r))]\<rparr>,
           w\<lparr>tables := fst (sql_update s n (tables w)),
             calls := calls w @ [Connect, Cursor, Execute, Fetchone, Commit, CloseCursor, CloseConn]\<rparr>)
      | None \<Rightarrow>
          (Inr \<lparr>status_code = 404,
                body = [(''error'', JStr (''Table '' @ str_int n @ '' not found''))]\<rparr>,
           w\<lparr>tables := fst (sql_update s n (tables w)),
             calls := calls w @ [Connect, Cursor, Execute, Fetchone, Commit, CloseCursor, CloseConn]\<rparr>))"
  by (simp add: guarded_update_def try_block_ok finally_block_def called_def split: option.splits)

lemma handler_valid:
  assumes "user_role req = Some (JStr role)" and "role = ''waiter'' \<or> role = ''admin''"
    and "get_json req = Inr (JObj kvs)" and "map_of kvs ''status'' = Some (JStr s)"
    and "s \<in> set allowed_statuses"
  shows "update_table_status flt n req w = guarded_update flt s n w"
proof -
  from assms(5) have "s \<noteq> []" by (auto simp: allowed_statuses_def)
  with assms show ?thesis
    by (auto simp add: update_table_status_def get_status_def)
qed

lemma no_header_rejected:
  "map_of (headers req) ''Authorization'' = None \<Longrightarrow>
   token_required jwt_decode f req w =
     (Inr \<lparr>status_code = 401, body = [(''message'', JStr ''Token is missing!'')]\<rparr>, w)"
  by (simp add: token_required_def read_token_def)

lemma empty_token_rejected:
  "map_of (headers req) ''Authorization'' = Some h \<Longrightarrow>
   str_split CHR '' '' h = scheme # [] # rest \<Longrightarrow>
   token_required jwt_decode f req w =
     (Inr \<lparr>status_code = 401, body = [(''message'', JStr ''Token is missing!'')]\<rparr>, w)"
  by (simp add: token_required_def read_token_def)

lemma single_part_raises:
  "map_of (headers req) ''Authorization'' = Some h \<Longrightarrow>
   str_split CHR '' '' h = [p] \<Longrightarrow>
   token_required jwt_decode f req w = (Inl IndexError, w)"
  by (simp add: token_required_def read_token_def)

lemma token_without_role_raises:
  "token_required sample_decode f (sample_request ''Bearer norole.tok'' data) w =
     (Inl (KeyError ''role''), w)"
  by (simp add: token_required_def read_token_def sample_request_def sample_decode_def)

lemma join_allowed:
  "str_join '', '' allowed_statuses = ''available, occupied, cleaning, reserved''"
  by (simp add: allowed_statuses_def)

lemma tables_called [simp]: "tables (called c w) = tables w"
  by (simp add: called_def)

lemma tables_printed [simp]: "tables (printed l w) = tables w"
  by (simp add: printed_def)

lemma tables_finally [simp]: "tables (finally_block conn cur w) = tables w"
  by (simp add: finally_block_def Let_def)

lemma try_block_tables:
  "try_block flt s n w = (out, conn, cur, w') \<Longrightarrow>
   (case out of
      Inr r \<Rightarrow> tables w' = map (set_status s n) (tables w)
    | Inl e \<Rightarrow> tables w' = tables w)"
  by (auto simp add: try_block_def Let_def sql_update_def split: option.splits)

lemma guarded_update_200:
  assumes "guarded_update flt s n w = (Inr r, w')" and "status_code r = 200"
  shows "tables w' = map (set_status s n) (tables w)"
proof -
  obtain o1 conn cur w1 where t: "try_block flt s n w = (o1, conn, cur, w1)"
    by (cases "try_block flt s n w") auto
  from try_block_tables[OF t] assms t show ?thesis
    by (auto simp add: guarded_update_def split: sum.splits exn.splits option.splits)
qed

lemma handler_200:
  assumes "update_table_status flt n req w = (Inr r, w')" and "status_code r = 200"
  shows "\<exists>s. s \<in> set allowed_statuses \<and> guarded_update flt s n w = (Inr r, w')"
  using assms
  by (auto simp add: update_table_status_def Let_def
           split: option.splits sum.splits if_splits json.splits)

lemma connect_failure:
  "flt Connect = Some (Psycopg2Error m) \<Longrightarrow>
   guarded_update flt s n w = (Inl AttributeError, w\<lparr>calls := calls w @ [Connect]\<rparr>)"
  by (simp add: guarded_update_def try_block_def finally_block_def called_def Let_def)

lemma execute_failure_rolled_back:
  "flt Connect = None \<Longrightarrow> flt Cursor = None \<Longrightarrow> flt Execute = Some (Psycopg2Error m) \<Longrightarrow>
   guarded_update flt s n w =
     (Inr \<lparr>status_code = 500,
           body = [(''error'', JStr ''Failed to update table status due to a database error.'')]\<rparr>,
      w\<lparr>calls := calls w @ [Connect, Cursor, Execute, Rollback, CloseCursor, CloseConn],
        log := log w @ [''Database error: '' @ m]\<rparr>)"
  by (simp add: guarded_update_def try_block_def finally_block_def called_def printed_def Let_def)

lemma commit_failure_rolled_back:
  "flt Connect = None \<Longrightarrow> flt Cursor = None \<Longrightarrow> flt Execute = None \<Longrightarrow>
   flt Fetchone = None \<Longrightarrow> flt Commit = Some (Psycopg2Error m) \<Longrightarrow>
   guarded_update flt s n w =
     (Inr \<lparr>status_code = 500,
           body = [(''error'', JStr ''Failed to update table status due to a database error.'')]\<rparr>,
      w\<lparr>calls := calls w @ [Connect, Cursor, Execute, Fetchone, Commit, Rollback,
                              CloseCursor, CloseConn],
        log := log w @ [''Database error: '' @ m]\<rparr>)"
  by (simp add: guarded_update_def try_block_def finally_block_def called_def printed_def Let_def)

section \<open>The claims\<close>

text \<open>
  C1. A request whose token the decorator accepts with role \<open>waiter\<close> or \<open>admin\<close>,
  whose body carries an allowed status and whose table number has a row, while the
  storage works: the route answers 200 with that table number and that status, the
  committed rows are the old ones with the status of every row of that number replaced,
  and the row in the answer is a committed row. The answer is built from the row the
  single \<open>UPDATE ... RETURNING\<close> statement gave back.
\<close>

theorem update_table_status_success:
  assumes "map_of (headers req) ''Authorization'' = Some h"
    and "str_split CHR '' '' h = scheme # token # rest"
    and "token \<noteq> []"
    and "jwt_decode token = Payload data"
    and "map_of data ''user_id'' = Some uid"
    and "map_of data ''role'' = Some (JStr role)"
    and "role = ''waiter'' \<or> role = ''admin''"
    and "get_json req = Inr (JObj kvs)"
    and "map_of kvs ''status'' = Some (JStr s)"
    and "s \<in> set allowed_statuses"
    and "n \<in> fst ` set (tables w)"
  shows "api_table_status jwt_decode no_faults n req w =
           (Inr \<lparr>status_code = 200,
                 body = [(''message'', JStr (''Table '' @ str_int n @ '' status updated to '' @ s)),
                         (''table_number'', JInt n),
                         (''status'', JStr s)]\<rparr>,
            w\<lparr>tables := map (set_status s n) (tables w),
              calls := calls w @ [Connect, Cursor, Execute, Fetchone, Commit, CloseCursor, CloseConn]\<rparr>)
         \<and> (n, s) \<in> set (map (set_status s n) (tables w))
         \<and> set (filter (\<lambda>r. fst r = n) (map (set_status s n) (tables w))) = {(n, s)}"
proof -
  let ?req = "req\<lparr>user_id := Some uid, user_role := Some (JStr role)\<rparr>"
  have gate: "api_table_status jwt_decode no_faults n req w = update_table_status no_faults n ?req w"
    unfolding api_table_status_def using assms(1-6) by (rule gate_passes)
  have "update_table_status no_faults n ?req w = guarded_update no_faults s n w"
    using assms(7-10) by (intro handler_valid[where role = role and kvs = kvs]) simp_all
  moreover have "fetchone (snd (sql_update s n (tables w))) = Some (n, s)"
    using assms(11) by (rule update_match_fetch)
  ultimately have res: "update_table_status no_faults n ?req w =
           (Inr \<lparr>status_code = 200,
                 body = [(''message'', JStr (''Table '' @ str_int n @ '' status updated to '' @ s)),
                         (''table_number'', JInt n),
                         (''status'', JStr s)]\<rparr>,
            w\<lparr>tables := map (set_status s n) (tables w),
              calls := calls w @ [Connect, Cursor, Execute, Fetchone, Commit, CloseCursor, CloseConn]\<rparr>)"
    by (simp add: guarded_update_ok sql_update_def)
  from assms(11) obtain r where r: "r \<in> set (tables w)" "fst r = n" by auto
  then have "set_status s n r = (n, s)" by (simp add: set_status_hit)
  with r have mem: "(n, s) \<in> set (map (set_status s n) (tables w))"
    by (metis image_eqI set_map)
  have "set (filter (\<lambda>r. fst r = n) (map (set_status s n) (tables w))) \<subseteq> {(n, s)}"
    by (auto simp: set_status_def split: if_splits)
  moreover from mem have "(n, s) \<in> set (filter (\<lambda>r. fst r = n) (map (set_status s n) (tables w)))"
    by simp
  ultimately have only: "set (filter (\<lambda>r. fst r = n) (map (set_status s n) (tables w))) = {(n, s)}"
    by blast
  from gate res mem only show ?thesis by simp
qed


theorem update_table_status_success_witness:
  "api_table_status sample_decode no_faults 3
     (sample_request ''Bearer waiter.tok'' (JObj [(''status'', JStr ''occupied'')])) sample_world =
     (Inr \<lparr>status_code = 200,
           body = [(''message'', JStr ''Table 3 status updated to occupied''),
                   (''table_number'', JInt 3), (''status'', JStr ''occupied'')]\<rparr>,
      \<lparr>tables = [(1, ''available''), (2, ''available''), (3, ''occupied''),
                 (4, ''available''), (5, ''available'')],
       calls = [Connect, Cursor, Execute, Fetchone, Commit, CloseCursor, CloseConn],
       log = []\<rparr>)"
proof -
  have three: "str_int 3 = ''3''" by code_simp
  have "api_table_status sample_decode no_faults 3
     (sample_request ''Bearer waiter.tok'' (JObj [(''status'', JStr ''occupied'')])) sample_world =
           (Inr \<lparr>status_code = 200,
                 body = [(''message'', JStr (''Table '' @ str_int 3 @ '' status updated to '' @ ''occupied'')),
                         (''table_number'', JInt 3),
                         (''status'', JStr ''occupied'')]\<rparr>,
            sample_world\<lparr>tables := map (set_status ''occupied'' 3) (tables sample_world),
              calls := calls sample_world @ [Connect, Cursor, Execute, Fetchone, Commit, CloseCursor, CloseConn]\<rparr>)
         \<and> (3, ''occupied'') \<in> set (map (set_status ''occupied'' 3) (tables sample_world))
         \<and> set (filter (\<lambda>r. fst r = 3) (map (set_status ''occupied'' 3) (tables sample_world))) = {(3, ''occupied'')}"
    by (rule update_table_status_success
          [where h = "''Bearer waiter.tok''" and scheme = "''Bearer''" and token = "''waiter.tok''"
             and rest = "[]" and role = "''waiter''" and uid = "JInt 7"
             and data = "[(''user_id'', JInt 7), (''role'', JStr ''waiter''), (''exp'', JInt 2000000000)]"
             and kvs = "[(''status'', JStr ''occupied'')]"])
       (simp_all add: sample_request_def sample_decode_def sample_world_def allowed_statuses_def)
  then show ?thesis
    by (simp add: three sample_world_def set_status_def)
qed

text \<open>
  C2. Past the role check and with a JSON object as body: a status that is absent, or
  present but falsy (\<open>null\<close>, \<open>false\<close>, \<open>0\<close>, the empty string, list or object), is
  answered 400 ``Status is required''; a truthy status outside the allowed list is
  answered 400 with the message that lists the four allowed statuses. Either way the
  world is returned as it was: no row changes and no driver call is made.
\<close>

theorem status_validation:
  assumes "user_role req = Some role"
    and "role \<in> set [JStr ''waiter'', JStr ''admin'']"
    and "get_json req = Inr (JObj kvs)"
  shows "(map_of kvs ''status'' = None \<longrightarrow>
            update_table_status flt n req w =
              (Inr \<lparr>status_code = 400, body = [(''error'', JStr ''Status is required'')]\<rparr>, w))
       \<and> (\<forall>v. map_of kvs ''status'' = Some v \<and> \<not> truthy v \<longrightarrow>
            update_table_status flt n req w =
              (Inr \<lparr>status_code = 400, body = [(''error'', JStr ''Status is required'')]\<rparr>, w))
       \<and> (\<forall>v. map_of kvs ''status'' = Some v \<and> truthy v \<and> v \<notin> JStr ` set allowed_statuses \<longrightarrow>
            update_table_status flt n req w =
              (Inr \<lparr>status_code = 400,
                    body = [(''error'', JStr
                      ''Invalid status. Allowed statuses are: available, occupied, cleaning, reserved'')]\<rparr>,
               w))"
proof (intro conjI allI impI)
  assume "map_of kvs ''status'' = None"
  with assms show "update_table_status flt n req w =
      (Inr \<lparr>status_code = 400, body = [(''error'', JStr ''Status is required'')]\<rparr>, w)"
    by (auto simp add: update_table_status_def get_status_def)
next
  fix v assume "map_of kvs ''status'' = Some v \<and> \<not> truthy v"
  with assms show "update_table_status flt n req w =
      (Inr \<lparr>status_code = 400, body = [(''error'', JStr ''Status is required'')]\<rparr>, w)"
    by (auto simp add: update_table_status_def get_status_def)
next
  fix v assume "map_of kvs ''status'' = Some v \<and> truthy v \<and> v \<notin> JStr ` set allowed_statuses"
  with assms show "update_table_status flt n req w =
      (Inr \<lparr>status_code = 400,
            body = [(''error'', JStr
              ''Invalid status. Allowed statuses are: available, occupied, cleaning, reserved'')]\<rparr>,
       w)"
    by (cases v) (auto simp add: update_table_status_def get_status_def join_allowed)
qed

theorem status_validation_witness:
  "update_table_status no_faults 3 (authorised_request ''waiter'' (JObj [])) sample_world =
     (Inr \<lparr>status_code = 400, body = [(''error'', JStr ''Status is required'')]\<rparr>, sample_world)
   \<and> update_table_status no_faults 3
       (authorised_request ''waiter'' (JObj [(''status'', JStr ''invalid_status'')])) sample_world =
     (Inr \<lparr>status_code = 400,
           body = [(''error'', JStr
             ''Invalid status. Allowed statuses are: available, occupied, cleaning, reserved'')]\<rparr>,
      sample_world)"
  using status_validation
          [where req = "authorised_request ''waiter'' (JObj [])" and role = "JStr ''waiter''"
             and kvs = "[]" and flt = no_faults and n = 3 and w = sample_world]
        status_validation
          [where req = "authorised_request ''waiter'' (JObj [(''status'', JStr ''invalid_status'')])"
             and role = "JStr ''waiter''" and kvs = "[(''status'', JStr ''invalid_status'')]"
             and flt = no_faults and n = 3 and w = sample_world]
  by (simp add: authorised_request_def allowed_statuses_def)

text \<open>
  The claim as first written puts every present status outside the allowed list under
  ``invalid status''. The empty string is present and not allowed, and is answered
  ``Status is required''.
\<close>

theorem empty_status_counterexample:
  "map_of [(''status'', JStr '''')] ''status'' = Some (JStr '''')
   \<and> '''' \<notin> set allowed_statuses
   \<and> update_table_status no_faults 3
       (authorised_request ''waiter'' (JObj [(''status'', JStr '''')])) sample_world =
     (Inr \<lparr>status_code = 400, body = [(''error'', JStr ''Status is required'')]\<rparr>, sample_world)
   \<and> update_table_status no_faults 3
       (authorised_request ''waiter'' (JObj [(''status'', JStr '''')])) sample_world \<noteq>
     (Inr \<lparr>status_code = 400,
           body = [(''error'', JStr (''Invalid status. Allowed statuses are: '' @
                                     str_join '', '' allowed_statuses))]\<rparr>, sample_world)"
  by (simp add: update_table_status_def authorised_request_def get_status_def allowed_statuses_def)

text \<open>
  C3. A request with no Authorization header, or with one that lacks a token after the
  scheme word, is to be answered 401 without running the handler. With the header
  \<open>Bearer\<close> alone, \<open>split(" ")\<close> gives one part and the index \<open>[1]\<close> raises
  \<open>IndexError\<close> ahead of the missing-token test: no 401 is returned. The handler is not
  run in any of these cases (\<open>no_header_rejected\<close>, \<open>empty_token_rejected\<close> and
  \<open>single_part_raises\<close> hold for every handler \<open>f\<close>).
\<close>

theorem bare_scheme_raises:
  "token_required jwt_decode f (sample_request ''Bearer'' data) w = (Inl IndexError, w)"
  by (simp add: token_required_def read_token_def sample_request_def)

text \<open>
  C4. A storage failure is to be answered by a rollback and the generic 500 answer. When
  the connection itself cannot be obtained, \<open>conn\<close> is still \<open>None\<close> in the
  \<open>except\<close> clause and \<open>conn.rollback()\<close> raises \<open>AttributeError\<close>, which leaves the
  handler: no answer is returned. A failure of \<open>execute\<close> or \<open>commit\<close> is handled as
  stated (\<open>execute_failure_rolled_back\<close>, \<open>commit_failure_rolled_back\<close>).
\<close>

theorem connect_failure_escapes:
  assumes "user_role req = Some (JStr role)"
    and "role = ''waiter'' \<or> role = ''admin''"
    and "get_json req = Inr (JObj kvs)"
    and "map_of kvs ''status'' = Some (JStr s)"
    and "s \<in> set allowed_statuses"
    and "flt Connect = Some (Psycopg2Error m)"
  shows "update_table_status flt n req w = (Inl AttributeError, w\<lparr>calls := calls w @ [Connect]\<rparr>)"
proof -
  have "update_table_status flt n req w = guarded_update flt s n w"
    using assms(1-5) by (rule handler_valid)
  with assms(6) show ?thesis by (simp add: connect_failure)
qed

theorem connect_failure_escapes_witness:
  "connect_refused Connect = Some (Psycopg2Error ''connection refused'')
   \<and> update_table_status connect_refused 3
       (authorised_request ''waiter'' (JObj [(''status'', JStr ''occupied'')])) sample_world =
     (Inl AttributeError, sample_world\<lparr>calls := [Connect]\<rparr>)"
  using connect_failure_escapes
          [where req = "authorised_request ''waiter'' (JObj [(''status'', JStr ''occupied'')])"
             and role = "''waiter''" and kvs = "[(''status'', JStr ''occupied'')]"
             and s = "''occupied''" and flt = connect_refused and m = "''connection refused''"
             and n = 3 and w = sample_world]
  by (simp add: authorised_request_def allowed_statuses_def connect_refused_def sample_world_def)

text \<open>
  C5. With an accepted role and an allowed status, a table number that no row carries,
  and a working storage: the answer is 404 ``Table n not found'' and the committed rows
  are the same as before.
\<close>

theorem unknown_table_not_found:
  assumes "user_role req = Some (JStr role)"
    and "role = ''waiter'' \<or> role = ''admin''"
    and "get_json req = Inr (JObj kvs)"
    and "map_of kvs ''status'' = Some (JStr s)"
    and "s \<in> set allowed_statuses"
    and "n \<notin> fst ` set (tables w)"
  shows "update_table_status no_faults n req w =
           (Inr \<lparr>status_code = 404,
                 body = [(''error'', JStr (''Table '' @ str_int n @ '' not found''))]\<rparr>,
            w\<lparr>calls := calls w @ [Connect, Cursor, Execute, Fetchone, Commit, CloseCursor, CloseConn]\<rparr>)
       \<and> tables (snd (update_table_status no_faults n req w)) = tables w"
proof -
  have "update_table_status no_faults n req w = guarded_update no_faults s n w"
    using assms(1-5) by (rule handler_valid)
  moreover have "sql_update s n (tables w) = (tables w, [])"
    using assms(6) by (rule update_no_match)
  ultimately show ?thesis
    by (simp add: guarded_update_ok fetchone_def)
qed

theorem unknown_table_not_found_witness:
  "999 \<notin> fst ` set (tables sample_world)
   \<and> update_table_status no_faults 999
       (authorised_request ''admin'' (JObj [(''status'', JStr ''available'')])) sample_world =
     (Inr \<lparr>status_code = 404, body = [(''error'', JStr ''Table 999 not found'')]\<rparr>,
      sample_world\<lparr>calls := [Connect, Cursor, Execute, Fetchone, Commit, CloseCursor, CloseConn]\<rparr>)"
proof -
  have n: "str_int 999 = ''999''" by code_simp
  show ?thesis
    using unknown_table_not_found
          [where req = "authorised_request ''admin'' (JObj [(''status'', JStr ''available'')])"
             and role = "''admin''" and kvs = "[(''status'', JStr ''available'')]"
             and s = "''available''" and n = 999 and w = sample_world]
    by (simp add: authorised_request_def allowed_statuses_def sample_world_def n)
qed

text \<open>
  C6. A token the decorator accepts (it decodes to a payload carrying \<open>user_id\<close> and
  \<open>role\<close>) whose role is neither \<open>waiter\<close> nor \<open>admin\<close>: the route answers 403, not
  401, whatever the body and the storage are, and returns the world as it was (no row
  changes, no driver call).
\<close>

theorem wrong_role_forbidden:
  assumes "map_of (headers req) ''Authorization'' = Some h"
    and "str_split CHR '' '' h = scheme # token # rest"
    and "token \<noteq> []"
    and "jwt_decode token = Payload data"
    and "map_of data ''user_id'' = Some uid"
    and "map_of data ''role'' = Some role"
    and "role \<notin> set [JStr ''waiter'', JStr ''admin'']"
  shows "api_table_status jwt_decode flt n req w =
           (Inr \<lparr>status_code = 403,
                 body = [(''error'',
                   JStr ''Unauthorized: Only waiters or admins can update table status'')]\<rparr>, w)"
proof -
  have "api_table_status jwt_decode flt n req w =
          update_table_status flt n (req\<lparr>user_id := Some uid, user_role := Some role\<rparr>) w"
    unfolding api_table_status_def using assms(1-6) by (rule gate_passes)
  with assms(7) show ?thesis
    by (simp add: update_table_status_def)
qed

theorem wrong_role_forbidden_witness:
  "api_table_status sample_decode no_faults 3
     (sample_request ''Bearer customer.tok'' (JObj [(''status'', JStr ''occupied'')])) sample_world =
     (Inr \<lparr>status_code = 403,
           body = [(''error'',
             JStr ''Unauthorized: Only waiters or admins can update table status'')]\<rparr>,
      sample_world)"
  by (rule wrong_role_forbidden
        [where h = "''Bearer customer.tok''" and scheme = "''Bearer''" and token = "''customer.tok''"
           and rest = "[]" and uid = "JInt 8" and role = "JStr ''customer''"
           and data = "[(''user_id'', JInt 8), (''role'', JStr ''customer''),
                        (''exp'', JInt 2000000000)]"])
     (simp_all add: sample_request_def sample_decode_def)

text \<open>
  C7. For a token read from the header: when decoding raises
  \<open>ExpiredSignatureError\<close> the answer is 401 ``Token has expired!'', when it raises another
  \<open>InvalidTokenError\<close> the answer is 401 ``Invalid Token!''; the two answers differ, and
  the handler is not run.
\<close>

theorem expired_distinct_from_invalid:
  assumes "map_of (headers req) ''Authorization'' = Some h"
    and "str_split CHR '' '' h = scheme # token # rest"
    and "token \<noteq> []"
  shows "(jwt_decode token = ExpiredSignatureError \<longrightarrow>
            token_required jwt_decode f req w =
              (Inr \<lparr>status_code = 401, body = [(''message'', JStr ''Token has expired!'')]\<rparr>, w))
       \<and> (jwt_decode token = InvalidTokenError \<longrightarrow>
            token_required jwt_decode f req w =
              (Inr \<lparr>status_code = 401, body = [(''message'', JStr ''Invalid Token!'')]\<rparr>, w))
       \<and> \<lparr>status_code = 401, body = [(''message'', JStr ''Token has expired!'')]\<rparr> \<noteq>
           \<lparr>status_code = 401, body = [(''message'', JStr ''Invalid Token!'')]\<rparr>"
  using assms by (simp add: token_required_def read_token_parts)

theorem expired_distinct_from_invalid_witness:
  "token_required sample_decode (update_table_status no_faults 3)
     (sample_request ''Bearer old.tok'' JNull) sample_world =
     (Inr \<lparr>status_code = 401, body = [(''message'', JStr ''Token has expired!'')]\<rparr>, sample_world)
   \<and> token_required sample_decode (update_table_status no_faults 3)
       (sample_request ''Bearer forged.tok'' JNull) sample_world =
     (Inr \<lparr>status_code = 401, body = [(''message'', JStr ''Invalid Token!'')]\<rparr>, sample_world)"
  using expired_distinct_from_invalid
          [where req = "sample_request ''Bearer old.tok'' JNull" and h = "''Bearer old.tok''"
             and scheme = "''Bearer''" and token = "''old.tok''" and rest = "[]"
             and jwt_decode = sample_decode and f = "update_table_status no_faults 3"
             and w = sample_world]
        expired_distinct_from_invalid
          [where req = "sample_request ''Bearer forged.tok'' JNull" and h = "''Bearer forged.tok''"
             and scheme = "''Bearer''" and token = "''forged.tok''" and rest = "[]"
             and jwt_decode = sample_decode and f = "update_table_status no_faults 3"
             and w = sample_world]
  by (simp add: sample_request_def sample_decode_def)

text \<open>
  C8. When the handler answers 200 for table number \<open>n\<close>, the committed rows keep their
  number and order, every row whose number is not \<open>n\<close> is the same as before, and the
  new rows are the old ones with an allowed status written into the rows numbered \<open>n\<close>.
\<close>

theorem update_frame:
  assumes "update_table_status flt n req w = (Inr r, w')" and "status_code r = 200"
  shows "length (tables w') = length (tables w)
       \<and> (\<forall>i < length (tables w). fst (tables w ! i) \<noteq> n \<longrightarrow> tables w' ! i = tables w ! i)
       \<and> (\<exists>s. s \<in> set allowed_statuses \<and> tables w' = map (set_status s n) (tables w))"
proof -
  from handler_200[OF assms] obtain s where
    s: "s \<in> set allowed_statuses" "guarded_update flt s n w = (Inr r, w')" by auto
  from guarded_update_200[OF s(2) assms(2)]
  have t: "tables w' = map (set_status s n) (tables w)" .
  then show ?thesis using s(1) by (auto simp add: set_status_other)
qed

theorem update_frame_witness:
  "update_table_status no_faults 3
       (authorised_request ''waiter'' (JObj [(''status'', JStr ''occupied'')])) sample_world =
     (Inr \<lparr>status_code = 200,
           body = [(''message'', JStr ''Table 3 status updated to occupied''),
                   (''table_number'', JInt 3), (''status'', JStr ''occupied'')]\<rparr>,
      \<lparr>tables = [(1, ''available''), (2, ''available''), (3, ''occupied''),
                 (4, ''available''), (5, ''available'')],
       calls = [Connect, Cursor, Execute, Fetchone, Commit, CloseCursor, CloseConn],
       log = []\<rparr>)
   \<and> length [(1::int, ''available''), (2, ''available''), (3, ''occupied''),
              (4, ''available''), (5, ''available'')] = length (tables sample_world)
   \<and> [(1::int, ''available''), (2, ''available''), (3, ''occupied''),
       (4, ''available''), (5, ''available'')] ! 1 = tables sample_world ! 1"
proof -
  have n: "str_int 3 = ''3''" by code_simp
  have run: "update_table_status no_faults 3
       (authorised_request ''waiter'' (JObj [(''status'', JStr ''occupied'')])) sample_world =
     (Inr \<lparr>status_code = 200,
           body = [(''message'', JStr ''Table 3 status updated to occupied''),
                   (''table_number'', JInt 3), (''status'', JStr ''occupied'')]\<rparr>,
      \<lparr>tables = [(1, ''available''), (2, ''available''), (3, ''occupied''),
                 (4, ''available''), (5, ''available'')],
       calls = [Connect, Cursor, Execute, Fetchone, Commit, CloseCursor, CloseConn],
       log = []\<rparr>)"
    by (simp add: update_table_status_def authorised_request_def get_status_def
          allowed_statuses_def guarded_update_ok sql_update_def fetchone_def set_status_def
          sample_world_def n)
  from update_frame[OF run] have
    "length [(1::int, ''available''), (2, ''available''), (3, ''occupied''),
              (4, ''available''), (5, ''available'')] = length (tables sample_world)
     \<and> (\<forall>i < length (tables sample_world). fst (tables sample_world ! i) \<noteq> 3 \<longrightarrow>
          [(1::int, ''available''), (2, ''available''), (3, ''occupied''),
           (4, ''available''), (5, ''available'')] ! i = tables sample_world ! i)"
    by simp
  then have "[(1::int, ''available''), (2, ''available''), (3, ''occupied''),
       (4, ''available''), (5, ''available'')] ! 1 = tables sample_world ! 1"
    by (simp add: sample_world_def)
  with run \<open>_ \<and> _\<close> show ?thesis by simp
qed

text \<open>
  C9. When the header value splits at spaces into at least two parts, the second part is
  the token, whatever the first part is: nothing compares it with \<open>Bearer\<close>. If that
  token is not empty and decodes to a payload carrying \<open>user_id\<close> and \<open>role\<close> (the two
  claims the decorator reads, which every issued token embeds), the handler runs on the
  request with both attached. The witness uses the scheme word \<open>Basic\<close>.
\<close>

theorem scheme_word_unchecked:
  assumes "map_of (headers req) ''Authorization'' = Some h"
    and "str_split CHR '' '' h = scheme # token # rest"
    and "token \<noteq> []"
    and "jwt_decode token = Payload data"
    and "map_of data ''user_id'' = Some uid"
    and "map_of data ''role'' = Some role"
  shows "read_token req = Inr (Some token)
       \<and> token_required jwt_decode f req w =
           f (req\<lparr>user_id := Some uid, user_role := Some role\<rparr>) w"
  using assms by (simp add: gate_passes read_token_parts)

theorem scheme_word_unchecked_witness:
  "str_split CHR '' '' ''Basic waiter.tok'' = [''Basic'', ''waiter.tok'']
   \<and> token_required sample_decode (update_table_status no_faults 3)
       (sample_request ''Basic waiter.tok'' (JObj [(''status'', JStr ''occupied'')])) sample_world =
     update_table_status no_faults 3
       ((sample_request ''Basic waiter.tok'' (JObj [(''status'', JStr ''occupied'')]))
          \<lparr>user_id := Some (JInt 7), user_role := Some (JStr ''waiter'')\<rparr>) sample_world"
  using scheme_word_unchecked
          [where req = "sample_request ''Basic waiter.tok'' (JObj [(''status'', JStr ''occupied'')])"
             and h = "''Basic waiter.tok''" and scheme = "''Basic''" and token = "''waiter.tok''"
             and rest = "[]" and jwt_decode = sample_decode and uid = "JInt 7"
             and role = "JStr ''waiter''"
             and data = "[(''user_id'', JInt 7), (''role'', JStr ''waiter''),
                          (''exp'', JInt 2000000000)]"
             and f = "update_table_status no_faults 3" and w = sample_world]
  by (simp add: sample_request_def sample_decode_def)

text \<open>
  C10. Past the role check, a body that maps \<open>status\<close> to a falsy value (the empty
  string among them) is answered 400 ``Status is required'': the same outcome as for a
  body without the key, not the ``Invalid status'' answer, and the world is returned as
  it was.
\<close>

theorem falsy_status_required:
  assumes "user_role req = Some role"
    and "role \<in> set [JStr ''waiter'', JStr ''admin'']"
    and "get_json req = Inr (JObj kvs)"
    and "map_of kvs ''status'' = Some v"
    and "\<not> truthy v"
  shows "update_table_status flt n req w =
           (Inr \<lparr>status_code = 400, body = [(''error'', JStr ''Status is required'')]\<rparr>, w)
       \<and> update_table_status flt n req w =
           update_table_status flt n (req\<lparr>get_json := Inr (JObj [])\<rparr>) w
       \<and> fst (update_table_status flt n req w) \<noteq>
           Inr \<lparr>status_code = 400,
                body = [(''error'', JStr (''Invalid status. Allowed statuses are: '' @
                                          str_join '', '' allowed_statuses))]\<rparr>"
  using assms by (auto simp add: update_table_status_def get_status_def)

theorem falsy_status_required_witness:
  "\<not> truthy (JStr '''')
   \<and> update_table_status no_faults 3
       (authorised_request ''admin'' (JObj [(''status'', JStr '''')])) sample_world =
     (Inr \<lparr>status_code = 400, body = [(''error'', JStr ''Status is required'')]\<rparr>, sample_world)"
  using falsy_status_required
          [where req = "authorised_request ''admin'' (JObj [(''status'', JStr '''')])"
             and role = "JStr ''admin''" and kvs = "[(''status'', JStr '''')]" and v = "JStr ''''"
             and flt = no_faults and n = 3 and w = sample_world]
  by (simp add: authorised_request_def)

end
